theory Spec2Isabelle
  imports Main "HOL-Library.Char_ord" "HOL-Library.List_Lexorder"
begin

section \<open>The admission validator of approver-policy (pkg/internal/webhook/validator.go)\<close>

text \<open>
  A shallow embedding of \<^verbatim>\<open>Handle\<close>, \<^verbatim>\<open>certificateRequestPolicy\<close>,
  \<^verbatim>\<open>InjectDecoder\<close> and \<^verbatim>\<open>check\<close>.

  Go strings are byte strings compared bytewise, so they are \<^typ>\<open>string\<close> with the
  order of \<open>Char_ord\<close> (characters by their code) lifted lexicographically by
  \<open>List_Lexorder\<close>; that is the order \<^verbatim>\<open>sort.Strings\<close> sorts by. A Go
  \<^verbatim>\<open>error\<close> is represented by its text, \<^verbatim>\<open>nil\<close> by \<^term>\<open>None\<close>.

  A Go map is an association list with distinct keys, listed in the order in which this
  run of the program iterates it (Go leaves that order unspecified, so theorems quantify
  over every such list). Logging is left out: no log call changes what is returned.

  The operations run one after another, each as one step. The reader/writer lock of the
  validator is part of its state: between two steps it records the read locks that were
  taken and never released, and whether a call is blocked in \<^verbatim>\<open>Lock\<close>; a call that
  cannot get the lock never returns.
\<close>

subsection \<open>Data model\<close>

type_synonym error = string

text \<open>\<^verbatim>\<open>metav1.GroupVersionKind\<close>.\<close>

record GroupVersionKind =
  Group :: string
  Version :: string
  Kind :: string

text \<open>\<^verbatim>\<open>admission.Request\<close>: the declared kind (a pointer, so optional) and the raw object.\<close>

record Request =
  Name :: string
  RequestKind :: "GroupVersionKind option"
  Object :: string

text \<open>
  The policy resource, pkg/apis/policy/v1alpha1. Its type declarations are not in the
  source file; the fields the validator reads are modelled here, the configuration of a
  plugin and the content of an issuer reference are carried along unread.
\<close>

datatype CertificateRequestPolicyPluginData =
  PluginData (Values: "(string \<times> string) list")

datatype CertificateRequestPolicySelectorIssuerRef =
  SelectorIssuerRef (ref_name: "string option") (ref_kind: "string option") (ref_group: "string option")

record CertificateRequestPolicySelectorNamespace =
  MatchLabels :: "(string \<times> string) list"

record CertificateRequestPolicySelector =
  IssuerRef :: "CertificateRequestPolicySelectorIssuerRef option"
  Namespace :: "CertificateRequestPolicySelectorNamespace option"

record CertificateRequestPolicySpec =
  Plugins :: "(string \<times> CertificateRequestPolicyPluginData) list"
  Selector :: CertificateRequestPolicySelector

record CertificateRequestPolicy =
  Spec :: CertificateRequestPolicySpec

text \<open>
  \<^verbatim>\<open>field.Path\<close> and \<^verbatim>\<open>field.Error\<close> (k8s.io/apimachinery). A path is the list of
  its segments; a field error is represented by the library constructor that builds it
  and the arguments the validator passes: \<^verbatim>\<open>field.NotSupported(path, value, validValues)\<close>,
  \<^verbatim>\<open>field.Required(path, detail)\<close>, \<^verbatim>\<open>field.Invalid(path, value, detail)\<close>. A plugin
  may return errors of any other kind, named by its error type.
\<close>

type_synonym Path = "string list"

definition NewPath :: "string \<Rightarrow> Path" where
  "NewPath name = [name]"

definition Child :: "Path \<Rightarrow> string list \<Rightarrow> Path" where
  "Child p names = p @ names"

fun path_String :: "Path \<Rightarrow> string" where
  "path_String [] = []"
| "path_String [s] = s"
| "path_String (s # t # rest) = s @ ''.'' @ path_String (t # rest)"

datatype BadValue =
  StringValue string
| LabelsValue "(string \<times> string) list"

datatype FieldError =
  NotSupported Path BadValue "string list"
| Required Path string
| Invalid Path BadValue string
| OtherError string Path string

type_synonym ErrorList = "FieldError list"

text \<open>\<^verbatim>\<open>approver.WebhookValidationResponse\<close>.\<close>

record WebhookValidationResponse =
  Allowed :: bool
  Errors :: ErrorList

text \<open>
  \<^verbatim>\<open>approver.Webhook\<close>: the \<^verbatim>\<open>Validate(ctx, policy)\<close> method of a plugin. A plugin
  is handed a pointer to the policy and may do I/O, so a call takes the policy and the
  state of the outside world \<open>'w\<close> and returns them as it leaves them, beside the Go
  result pair \<open>(response, err)\<close>.
\<close>

type_synonym ('ctx, 'w) Webhook =
  "'ctx \<Rightarrow> CertificateRequestPolicy \<Rightarrow> 'w \<Rightarrow>
     (WebhookValidationResponse \<times> error option) \<times> CertificateRequestPolicy \<times> 'w"

text \<open>
  \<^verbatim>\<open>sync.RWMutex\<close>, as it stands between two operations: the number of read locks held
  (a read lock is held between operations only when its holder panicked before
  \<^verbatim>\<open>RUnlock\<close>), and whether a goroutine is blocked in \<^verbatim>\<open>Lock\<close>. \<^verbatim>\<open>RLock\<close>
  blocks while a writer is waiting; \<^verbatim>\<open>Lock\<close> blocks while a read lock is held or
  another writer is waiting. \<^term>\<open>None\<close> is a call that blocks; as the read locks
  held are never released, it blocks for ever.
\<close>

record RWMutex =
  readers :: nat
  writer_waiting :: bool

definition RLock :: "RWMutex \<Rightarrow> RWMutex option" where
  "RLock l = (if writer_waiting l then None else Some (l\<lparr>readers := Suc (readers l)\<rparr>))"

definition RUnlock :: "RWMutex \<Rightarrow> RWMutex" where
  "RUnlock l = l\<lparr>readers := readers l - 1\<rparr>"

definition Lock :: "RWMutex \<Rightarrow> RWMutex option" where
  "Lock l = (if 0 < readers l \<or> writer_waiting l then None else Some l)"

text \<open>What a call of an entry point does: it returns, or it never returns.\<close>

datatype 'a Call =
  Returned 'a
| Blocked

text \<open>
  The \<^verbatim>\<open>validator\<close> struct: the lock, the registry of plugin names, the plugins in
  registration order, and the decoder handle (a pointer: \<^term>\<open>None\<close> is \<^verbatim>\<open>nil\<close>).
\<close>

record ('ctx, 'w, 'dec) validator =
  lock :: RWMutex
  registeredPlugins :: "string list"
  webhooks :: "('ctx, 'w) Webhook list"
  decoder :: "'dec option"

text \<open>
  \<^verbatim>\<open>admission.Response\<close>, by the constructor that builds it:
  \<^verbatim>\<open>admission.Allowed(message)\<close>, \<^verbatim>\<open>admission.Denied(message)\<close>,
  \<^verbatim>\<open>admission.Errored(code, err)\<close>.
\<close>

datatype Response =
  admission_Allowed string
| admission_Denied string
| admission_Errored nat error

definition StatusBadRequest :: nat where
  "StatusBadRequest = 400"

definition StatusInternalServerError :: nat where
  "StatusInternalServerError = 500"

text \<open>
  What a call of \<^verbatim>\<open>Decode(req, &policy)\<close> on the decoder handle can do: return an error,
  fill in the policy, or panic (Go calls the method also on a nil receiver, and the
  method panics when it dereferences it).
\<close>

datatype DecodeResult =
  DecodePanic
| DecodeError error
| Decoded CertificateRequestPolicy

text \<open>What \<^verbatim>\<open>Handle\<close> does: it returns a response, or the goroutine panics.\<close>

datatype HandleResult =
  Returns Response
| Panics

text \<open>
  The parts the validator uses that are declared outside the source file, taken as
  parameters: the constant \<^verbatim>\<open>policy.GroupName\<close>, the decoder's \<^verbatim>\<open>Decode\<close> method
  (applied to the handle, set or not), \<^verbatim>\<open>metav1.LabelSelectorAsSelector\<close> (only its
  error is used: \<^term>\<open>None\<close> when the labels compile) and the rendering
  \<^verbatim>\<open>el.ToAggregate().Error()\<close>.
\<close>

record 'dec externals =
  GroupName :: string
  Decode :: "'dec option \<Rightarrow> Request \<Rightarrow> DecodeResult"
  LabelSelectorAsSelector :: "(string \<times> string) list \<Rightarrow> error option"
  ToAggregateError :: "ErrorList \<Rightarrow> string"

subsection \<open>certificateRequestPolicy\<close>

text \<open>Lines 104-110: the search of the registry for one declared name.\<close>

fun found_loop :: "string \<Rightarrow> string list \<Rightarrow> bool" where
  "found_loop name [] = False"
| "found_loop name (known # rest) = (if name = known then True else found_loop name rest)"

text \<open>Lines 102-115: the declared names that are not registered, in iteration order.\<close>

fun unrecognisedNames_loop ::
  "(string \<times> CertificateRequestPolicyPluginData) list \<Rightarrow> string list \<Rightarrow> string list \<Rightarrow> string list" where
  "unrecognisedNames_loop [] registered unrecognisedNames = unrecognisedNames"
| "unrecognisedNames_loop ((name, _) # rest) registered unrecognisedNames =
     (if \<not> found_loop name registered
      then unrecognisedNames_loop rest registered (unrecognisedNames @ [name])
      else unrecognisedNames_loop rest registered unrecognisedNames)"

text \<open>
  Lines 96-133, the base validations: the list \<^verbatim>\<open>el\<close> as it stands when the loop over
  the plugins begins.
\<close>

definition base_validations ::
  "'dec externals \<Rightarrow> ('ctx, 'w, 'dec) validator \<Rightarrow> CertificateRequestPolicy \<Rightarrow> ErrorList" where
  "base_validations ext v policy =
     (let el0 = [];
          fldPath = NewPath ''spec'';
          unrecognisedNames = unrecognisedNames_loop (Plugins (Spec policy)) (registeredPlugins v) [];
          el1 = (if length unrecognisedNames > 0
                 then foldl (\<lambda>el name. el @ [NotSupported (Child fldPath [''plugins''])
                                (StringValue name) (registeredPlugins v)])
                        el0 (sort unrecognisedNames)
                 else el0);
          el2 = (if IssuerRef (Selector (Spec policy)) = None \<and> Namespace (Selector (Spec policy)) = None
                 then el1 @ [Required (Child fldPath [''selector''])
                   ''one of issuerRef or namespace must be defined, hint: `{}` on either matches everything'']
                 else el1);
          el3 = (case Namespace (Selector (Spec policy)) of
                   None \<Rightarrow> el2
                 | Some nsSel \<Rightarrow>
                     if length (MatchLabels nsSel) > 0
                     then (case LabelSelectorAsSelector ext (MatchLabels nsSel) of
                             Some err \<Rightarrow> el2 @ [Invalid (Child fldPath [''selector'', ''namespace'', ''matchLabels''])
                                            (LabelsValue (MatchLabels nsSel)) err]
                           | None \<Rightarrow> el2)
                     else el2)
      in el3)"

text \<open>
  Lines 135-145, the loop over the plugins: an execution error returns \<^verbatim>\<open>(nil, err)\<close>
  at once; a response that is not allowed has its errors appended.
\<close>

fun webhooks_loop ::
  "'ctx \<Rightarrow> ('ctx, 'w) Webhook list \<Rightarrow> ErrorList \<Rightarrow> CertificateRequestPolicy \<Rightarrow> 'w \<Rightarrow>
     (ErrorList \<times> error option) \<times> CertificateRequestPolicy \<times> 'w" where
  "webhooks_loop ctx [] el policy w = ((el, None), policy, w)"
| "webhooks_loop ctx (webhook # rest) el policy w =
     (case webhook ctx policy w of
        ((response, err), policy', w') \<Rightarrow>
          if err \<noteq> None then (([], err), policy', w')
          else webhooks_loop ctx rest
                 (if \<not> Allowed response then el @ Errors response else el) policy' w')"

definition certificateRequestPolicy ::
  "'dec externals \<Rightarrow> ('ctx, 'w, 'dec) validator \<Rightarrow> 'ctx \<Rightarrow> CertificateRequestPolicy \<Rightarrow> 'w \<Rightarrow>
     (ErrorList \<times> error option) \<times> CertificateRequestPolicy \<times> 'w" where
  "certificateRequestPolicy ext v ctx policy w =
     webhooks_loop ctx (webhooks v) (base_validations ext v policy) policy w"

subsection \<open>Handle\<close>

text \<open>
  \<^verbatim>\<open>Handle\<close> as it runs when line 65 is granted the read lock. The lock is held from
  line 65 to line 67, around \<^verbatim>\<open>Decode\<close> only; taking it, and what is left of it
  when \<^verbatim>\<open>Decode\<close> panics, is in \<open>step\<close> below.
\<close>

definition Handle ::
  "'dec externals \<Rightarrow> ('ctx, 'w, 'dec) validator \<Rightarrow> 'ctx \<Rightarrow> Request \<Rightarrow> 'w \<Rightarrow> HandleResult \<times> 'w" where
  "Handle ext v ctx req w =
     (case RequestKind req of
        None \<Rightarrow> (Returns (admission_Errored StatusBadRequest ''no resource kind sent in request''), w)
      | Some kind \<Rightarrow>
          if kind = \<lparr>Group = GroupName ext, Version = ''v1alpha1'', Kind = ''CertificateRequestPolicy''\<rparr>
          then (case Decode ext (decoder v) req of
                  DecodePanic \<Rightarrow> (Panics, w)
                | DecodeError err \<Rightarrow> (Returns (admission_Errored StatusBadRequest err), w)
                | Decoded policy \<Rightarrow>
                    (case certificateRequestPolicy ext v ctx policy w of
                       ((el, err), policy', w') \<Rightarrow>
                         (case err of
                            Some e \<Rightarrow> (Returns (admission_Errored StatusInternalServerError e), w')
                          | None \<Rightarrow>
                              if length el > 0
                              then (Returns (admission_Denied (ToAggregateError ext el)), w')
                              else (Returns (admission_Allowed ''CertificateRequestPolicy validated''), w'))))
          else (Returns (admission_Denied
                  (''validation request for unrecognised resource type: ''
                     @ Group kind @ ''/'' @ Version kind @ '' '' @ Kind kind)), w))"

subsection \<open>InjectDecoder and check\<close>

text \<open>
  Lines 150-156. \<^verbatim>\<open>Lock\<close> comes first: a call that cannot get the lock waits in it
  for ever, assigns nothing, and from then on is a waiting writer. Otherwise the pointer
  is stored, nil or not, and the deferred \<^verbatim>\<open>Unlock\<close> leaves the lock as it was.
\<close>

definition InjectDecoder ::
  "('ctx, 'w, 'dec) validator \<Rightarrow> 'dec option \<Rightarrow>
     ('ctx, 'w, 'dec) validator \<times> error option Call" where
  "InjectDecoder v d =
     (case Lock (lock v) of
        None \<Rightarrow> (v\<lparr>lock := (lock v)\<lparr>writer_waiting := True\<rparr>\<rparr>, Blocked)
      | Some l \<Rightarrow> (v\<lparr>decoder := d, lock := l\<rparr>, Returned None))"

text \<open>
  Lines 160-169. \<^verbatim>\<open>RLock\<close> comes first; the deferred \<^verbatim>\<open>RUnlock\<close> gives the read
  lock back, so a call that returns leaves the validator as it was.
\<close>

definition check :: "('ctx, 'w, 'dec) validator \<Rightarrow> error option Call" where
  "check v =
     (case RLock (lock v) of
        None \<Rightarrow> Blocked
      | Some l \<Rightarrow> Returned (if decoder v \<noteq> None then None else Some ''not ready''))"

subsection \<open>The operations on a validator, one after another\<close>

text \<open>
  The three entry points as the steps of a state machine over the validator and the
  outside world. \<^verbatim>\<open>InjectDecoder\<close> is the only one that assigns the decoder handle.
  \<^verbatim>\<open>Handle\<close> touches the lock only for a request of the recognised kind: it waits
  for ever at line 65 when a writer is waiting; when \<^verbatim>\<open>Decode\<close> panics, the
  \<^verbatim>\<open>RUnlock\<close> of line 67, which is not deferred, is never reached and the read lock
  stays held; otherwise line 67 gives it back.
\<close>

datatype ('ctx, 'dec) Operation =
  OpInjectDecoder "'dec option"
| OpCheck
| OpHandle 'ctx Request

fun step ::
  "'dec externals \<Rightarrow> ('ctx, 'w, 'dec) validator \<times> 'w \<Rightarrow> ('ctx, 'dec) Operation \<Rightarrow>
     ('ctx, 'w, 'dec) validator \<times> 'w" where
  "step ext (v, w) (OpInjectDecoder d) = (fst (InjectDecoder v d), w)"
| "step ext (v, w) OpCheck = (v, w)"
| "step ext (v, w) (OpHandle ctx req) =
     (if RequestKind req =
           Some \<lparr>Group = GroupName ext, Version = ''v1alpha1'', Kind = ''CertificateRequestPolicy''\<rparr>
      then (case RLock (lock v) of
              None \<Rightarrow> (v, w)
            | Some l \<Rightarrow>
                (case Handle ext v ctx req w of
                   (Panics, w') \<Rightarrow> (v\<lparr>lock := l\<rparr>, w')
                 | (Returns response, w') \<Rightarrow> (v\<lparr>lock := RUnlock l\<rparr>, w')))
      else (v, snd (Handle ext v ctx req w)))"

definition run_ops ::
  "'dec externals \<Rightarrow> ('ctx, 'w, 'dec) validator \<times> 'w \<Rightarrow> ('ctx, 'dec) Operation list \<Rightarrow>
     ('ctx, 'w, 'dec) validator \<times> 'w" where
  "run_ops ext s ops = foldl (step ext) s ops"

subsection \<open>Notions the properties are stated with\<close>

text \<open>A lock that nobody holds and nobody waits for.\<close>

definition lock_free :: "RWMutex \<Rightarrow> bool" where
  "lock_free l = (readers l = 0 \<and> \<not> writer_waiting l)"

text \<open>The one kind \<^verbatim>\<open>Handle\<close> recognises (line 61).\<close>

definition recognised_kind :: "'dec externals \<Rightarrow> GroupVersionKind" where
  "recognised_kind ext =
     \<lparr>Group = GroupName ext, Version = ''v1alpha1'', Kind = ''CertificateRequestPolicy''\<rparr>"

text \<open>
  The \<^verbatim>\<open>Validate\<close> calls the loop over the plugins makes, with what each returned: the
  loop calls the plugins in order and stops after the first call that returns an error.
\<close>

fun calls_made ::
  "'ctx \<Rightarrow> ('ctx, 'w) Webhook list \<Rightarrow> CertificateRequestPolicy \<Rightarrow> 'w \<Rightarrow>
     (WebhookValidationResponse \<times> error option) list" where
  "calls_made ctx [] policy w = []"
| "calls_made ctx (webhook # rest) policy w =
     (case webhook ctx policy w of
        ((response, err), policy', w') \<Rightarrow>
          (response, err) # (if err \<noteq> None then [] else calls_made ctx rest policy' w'))"

text \<open>What a sequence of successful calls contributes: the errors of the responses that deny.\<close>

definition plugin_errors :: "(WebhookValidationResponse \<times> error option) list \<Rightarrow> ErrorList" where
  "plugin_errors calls =
     concat (map (\<lambda>(response, err). if Allowed response then [] else Errors response) calls)"

text \<open>
  The three base checks as the specification words them (its section 4.3), each a
  function of the resource alone, to compare with \<^const>\<open>base_validations\<close>.
\<close>

definition unknown_plugin_names ::
  "('ctx, 'w, 'dec) validator \<Rightarrow> CertificateRequestPolicy \<Rightarrow> string list" where
  "unknown_plugin_names v policy =
     sort (filter (\<lambda>name. name \<notin> set (registeredPlugins v)) (map fst (Plugins (Spec policy))))"

definition unknown_plugin_errors ::
  "('ctx, 'w, 'dec) validator \<Rightarrow> CertificateRequestPolicy \<Rightarrow> ErrorList" where
  "unknown_plugin_errors v policy =
     map (\<lambda>name. NotSupported [''spec'', ''plugins''] (StringValue name) (registeredPlugins v))
       (unknown_plugin_names v policy)"

definition selector_errors :: "CertificateRequestPolicy \<Rightarrow> ErrorList" where
  "selector_errors policy =
     (if IssuerRef (Selector (Spec policy)) = None \<and> Namespace (Selector (Spec policy)) = None
      then [Required [''spec'', ''selector'']
              ''one of issuerRef or namespace must be defined, hint: `{}` on either matches everything'']
      else [])"

definition match_labels_errors :: "'dec externals \<Rightarrow> CertificateRequestPolicy \<Rightarrow> ErrorList" where
  "match_labels_errors ext policy =
     (case Namespace (Selector (Spec policy)) of
        None \<Rightarrow> []
      | Some nsSel \<Rightarrow>
          (case MatchLabels nsSel of
             [] \<Rightarrow> []
           | _ # _ \<Rightarrow>
               (case LabelSelectorAsSelector ext (MatchLabels nsSel) of
                  None \<Rightarrow> []
                | Some err \<Rightarrow>
                    [Invalid [''spec'', ''selector'', ''namespace'', ''matchLabels'']
                       (LabelsValue (MatchLabels nsSel)) err])))"

text \<open>Recognisers of the three kinds of error the base checks build, by path.\<close>

fun is_NotSupported_on :: "Path \<Rightarrow> FieldError \<Rightarrow> bool" where
  "is_NotSupported_on p (NotSupported q _ _) = (p = q)"
| "is_NotSupported_on p _ = False"

fun is_Required_on :: "Path \<Rightarrow> FieldError \<Rightarrow> bool" where
  "is_Required_on p (Required q _) = (p = q)"
| "is_Required_on p _ = False"

fun is_Invalid_on :: "Path \<Rightarrow> FieldError \<Rightarrow> bool" where
  "is_Invalid_on p (Invalid q _ _) = (p = q)"
| "is_Invalid_on p _ = False"

subsection \<open>Concrete inputs\<close>

text \<open>
  A small installation to evaluate the functions on. The decoder is a parser of the raw
  object; \<^verbatim>\<open>Decode\<close> answers as controller-runtime's does: an empty object is an error
  before the receiver is touched, and any other object dereferences the receiver, which
  panics when it is nil. Labels with an empty key do not compile. The world is the list
  of the names of the plugins called so far. The lock of the validator is free.
\<close>

definition ex_ext :: "(string \<Rightarrow> CertificateRequestPolicy option) externals" where
  "ex_ext =
     \<lparr>GroupName = ''policy.cert-manager.io'',
      Decode = (\<lambda>d req.
        if Object req = [] then DecodeError ''there is no content to decode''
        else (case d of
                None \<Rightarrow> DecodePanic
              | Some parse \<Rightarrow>
                  (case parse (Object req) of
                     None \<Rightarrow> DecodeError ''cannot decode the object''
                   | Some policy \<Rightarrow> Decoded policy))),
      LabelSelectorAsSelector = (\<lambda>labels.
        if [] \<in> set (map fst labels) then Some ''name part must be non-empty'' else None),
      ToAggregateError = (\<lambda>el. ''denied with '' @ replicate (length el) CHR ''*'' @ '' field errors'')\<rparr>"

definition ex_plugin ::
  "string \<Rightarrow> bool \<Rightarrow> ErrorList \<Rightarrow> error option \<Rightarrow> (unit, string list) Webhook" where
  "ex_plugin name allowed errs err =
     (\<lambda>ctx policy w. ((\<lparr>Allowed = allowed, Errors = errs\<rparr>, err), policy, w @ [name]))"

definition ex_policy ::
  "string list \<Rightarrow> bool \<Rightarrow> (string \<times> string) list option \<Rightarrow> CertificateRequestPolicy" where
  "ex_policy names issuer labels =
     \<lparr>Spec = \<lparr>Plugins = map (\<lambda>name. (name, PluginData [])) names,
              Selector = \<lparr>IssuerRef = (if issuer then Some (SelectorIssuerRef None None None) else None),
                          Namespace = map_option (\<lambda>ls. \<lparr>MatchLabels = ls\<rparr>) labels\<rparr>\<rparr>\<rparr>"

definition ex_validator ::
  "string list \<Rightarrow> (unit, string list) Webhook list \<Rightarrow> (string \<Rightarrow> CertificateRequestPolicy option) option \<Rightarrow>
     (unit, string list, string \<Rightarrow> CertificateRequestPolicy option) validator" where
  "ex_validator registry plugins d =
     \<lparr>lock = \<lparr>readers = 0, writer_waiting = False\<rparr>,
      registeredPlugins = registry, webhooks = plugins, decoder = d\<rparr>"

definition ex_request :: "GroupVersionKind option \<Rightarrow> string \<Rightarrow> Request" where
  "ex_request kind raw = \<lparr>Name = ''policy-a'', RequestKind = kind, Object = raw\<rparr>"

definition ex_parse :: "CertificateRequestPolicy \<Rightarrow> string \<Rightarrow> CertificateRequestPolicy option" where
  "ex_parse policy raw = (if raw = ''{policy}'' then Some policy else None)"

section \<open>Properties\<close>

subsection \<open>The loops\<close>

lemma found_loop_iff: "found_loop name registered = (name \<in> set registered)"
  by (induction registered) auto

lemma unrecognisedNames_loop_eq:
  "unrecognisedNames_loop ps registered acc =
     acc @ filter (\<lambda>name. name \<notin> set registered) (map fst ps)"
  by (induction ps registered acc rule: unrecognisedNames_loop.induct)
     (auto simp: found_loop_iff)

lemma foldl_snoc_map: "foldl (\<lambda>el x. el @ [f x]) el xs = el @ map f xs"
  by (induction xs arbitrary: el) auto

lemma base_validations_eq:
  "base_validations ext v policy =
     unknown_plugin_errors v policy @ selector_errors policy @ match_labels_errors ext policy"
  by (simp add: base_validations_def unknown_plugin_errors_def unknown_plugin_names_def
      selector_errors_def match_labels_errors_def unrecognisedNames_loop_eq foldl_snoc_map
      NewPath_def Child_def Let_def split: option.splits list.splits)

lemma plugin_errors_Nil [simp]: "plugin_errors [] = []"
  by (simp add: plugin_errors_def)

lemma plugin_errors_Cons [simp]:
  "plugin_errors ((response, err) # calls) =
     (if Allowed response then [] else Errors response) @ plugin_errors calls"
  by (simp add: plugin_errors_def)

lemma calls_made_length: "length (calls_made ctx ws policy w) \<le> length ws"
proof (induction ws arbitrary: policy w)
  case Nil
  then show ?case by simp
next
  case (Cons webhook rest)
  obtain r err policy' w' where c: "webhook ctx policy w = ((r, err), policy', w')"
    by (cases "webhook ctx policy w") auto
  from Cons.IH [of policy' w'] c show ?case by simp
qed

lemma webhooks_loop_ok:
  "\<forall>c \<in> set (calls_made ctx ws policy w). snd c = None \<Longrightarrow>
   fst (webhooks_loop ctx ws el policy w) = (el @ plugin_errors (calls_made ctx ws policy w), None)"
proof (induction ws arbitrary: el policy w)
  case Nil
  then show ?case by simp
next
  case (Cons webhook rest)
  obtain response err policy' w' where c: "webhook ctx policy w = ((response, err), policy', w')"
    by (cases "webhook ctx policy w") auto
  with Cons.prems have e: "err = None" by simp
  with Cons.prems c have "\<forall>c \<in> set (calls_made ctx rest policy' w'). snd c = None" by simp
  from Cons.IH [OF this] c e show ?case by simp
qed

lemma webhooks_loop_no_error_iff:
  "snd (fst (webhooks_loop ctx ws el policy w)) = None \<longleftrightarrow>
   (\<forall>c \<in> set (calls_made ctx ws policy w). snd c = None)"
proof (induction ws arbitrary: el policy w)
  case Nil
  then show ?case by simp
next
  case (Cons webhook rest)
  obtain r err policy' w' where c: "webhook ctx policy w = ((r, err), policy', w')"
    by (cases "webhook ctx policy w") auto
  from Cons.IH [of _ policy' w'] c show ?case by (cases err) simp_all
qed

lemma webhooks_loop_failed:
  "(response, Some e) \<in> set (calls_made ctx ws policy w) \<Longrightarrow>
   fst (webhooks_loop ctx ws el policy w) = ([], Some e) \<and>
   last (calls_made ctx ws policy w) = (response, Some e)"
proof (induction ws arbitrary: el policy w)
  case Nil
  then show ?case by simp
next
  case (Cons webhook rest)
  obtain r err policy' w' where c: "webhook ctx policy w = ((r, err), policy', w')"
    by (cases "webhook ctx policy w") auto
  show ?case
  proof (cases err)
    case None
    with Cons.prems c have "(response, Some e) \<in> set (calls_made ctx rest policy' w')" by auto
    from Cons.IH [OF this] this c None show ?thesis by auto
  next
    case (Some e')
    with Cons.prems c show ?thesis by simp
  qed
qed

lemma webhooks_loop_later_plugins:
  "(response, Some e) \<in> set (calls_made ctx ws policy w) \<Longrightarrow>
   webhooks_loop ctx (take (length (calls_made ctx ws policy w)) ws @ others) el policy w =
   webhooks_loop ctx ws el policy w"
proof (induction ws arbitrary: el policy w)
  case Nil
  then show ?case by simp
next
  case (Cons webhook rest)
  obtain r err policy' w' where c: "webhook ctx policy w = ((r, err), policy', w')"
    by (cases "webhook ctx policy w") auto
  show ?case
  proof (cases err)
    case None
    with Cons.prems c have "(response, Some e) \<in> set (calls_made ctx rest policy' w')" by auto
    from Cons.IH [OF this] c None show ?thesis by simp
  next
    case (Some e')
    with c show ?thesis by simp
  qed
qed

lemma certificateRequestPolicy_no_error:
  assumes "snd (fst (certificateRequestPolicy ext v ctx policy w)) = None"
  shows "fst (fst (certificateRequestPolicy ext v ctx policy w)) =
           base_validations ext v policy @ plugin_errors (calls_made ctx (webhooks v) policy w)"
proof -
  from assms have "\<forall>c \<in> set (calls_made ctx (webhooks v) policy w). snd c = None"
    by (simp add: certificateRequestPolicy_def webhooks_loop_no_error_iff)
  from webhooks_loop_ok [OF this] show ?thesis
    by (simp add: certificateRequestPolicy_def)
qed

lemma base_validations_webhooks:
  "base_validations ext (v\<lparr>webhooks := ws\<rparr>) policy = base_validations ext v policy"
  by (simp add: base_validations_eq unknown_plugin_errors_def unknown_plugin_names_def)

subsection \<open>The errors of each base check, by kind\<close>

lemma filter_unknown_Required [simp]:
  "filter (is_Required_on p) (unknown_plugin_errors v policy) = []"
  by (simp add: unknown_plugin_errors_def filter_empty_conv)

lemma filter_unknown_Invalid [simp]:
  "filter (is_Invalid_on p) (unknown_plugin_errors v policy) = []"
  by (simp add: unknown_plugin_errors_def filter_empty_conv)

lemma filter_unknown_NotSupported [simp]:
  "filter (is_NotSupported_on [''spec'', ''plugins'']) (unknown_plugin_errors v policy) =
     unknown_plugin_errors v policy"
  by (simp add: unknown_plugin_errors_def)

lemma filter_selector_errors [simp]:
  "filter (is_Required_on [''spec'', ''selector'']) (selector_errors policy) = selector_errors policy"
  "filter (is_Invalid_on p) (selector_errors policy) = []"
  "filter (is_NotSupported_on p) (selector_errors policy) = []"
  by (simp_all add: selector_errors_def)

lemma filter_match_labels_errors [simp]:
  "filter (is_Invalid_on [''spec'', ''selector'', ''namespace'', ''matchLabels''])
     (match_labels_errors ext policy) = match_labels_errors ext policy"
  "filter (is_Required_on p) (match_labels_errors ext policy) = []"
  "filter (is_NotSupported_on p) (match_labels_errors ext policy) = []"
  by (simp_all add: match_labels_errors_def split: option.splits list.splits)

lemma unknown_plugin_names_distinct:
  assumes "distinct (map fst (Plugins (Spec policy)))"
  shows "unknown_plugin_names v policy =
           sorted_list_of_set (set (map fst (Plugins (Spec policy))) - set (registeredPlugins v))"
proof -
  let ?xs = "filter (\<lambda>name. name \<notin> set (registeredPlugins v)) (map fst (Plugins (Spec policy)))"
  from assms have "distinct ?xs" by simp
  then have "sort ?xs = sorted_list_of_set (set ?xs)"
    using sorted_list_of_set_sort_remdups [of ?xs] distinct_remdups_id [of ?xs] by metis
  moreover have "set ?xs = set (map fst (Plugins (Spec policy))) - set (registeredPlugins v)"
    by auto
  ultimately show ?thesis
    by (simp add: unknown_plugin_names_def)
qed

subsection \<open>Handle on a request that decodes\<close>

lemma Handle_recognised:
  assumes "RequestKind req = Some (recognised_kind ext)"
    and "Decode ext (decoder v) req = Decoded policy"
  shows "Handle ext v ctx req w =
           (case certificateRequestPolicy ext v ctx policy w of
              ((el, err), policy', w') \<Rightarrow>
                (case err of
                   Some e \<Rightarrow> (Returns (admission_Errored 500 e), w')
                 | None \<Rightarrow>
                     if el \<noteq> []
                     then (Returns (admission_Denied (ToAggregateError ext el)), w')
                     else (Returns (admission_Allowed ''CertificateRequestPolicy validated''), w')))"
  using assms
  by (simp add: Handle_def recognised_kind_def StatusInternalServerError_def
      split: prod.splits option.splits)

subsection \<open>C1: a plugin that returns an execution error\<close>

text \<open>
  Claim C1. If one of the \<^verbatim>\<open>Validate\<close> calls that \<^const>\<open>certificateRequestPolicy\<close>
  makes returns an execution error, then it returns the nil list with that error, whatever
  the base checks and the earlier plugins had aggregated; the failing call is the last
  call made, and the plugins registered after it play no part (replacing them by any
  others changes neither the result nor the world left behind); \<^const>\<open>Handle\<close> answers
  such a request with \<^verbatim>\<open>Errored\<close>, status 500 and that error.
\<close>

theorem C1_execution_error:
  assumes "(response, Some e) \<in> set (calls_made ctx (webhooks v) policy w)"
  shows "fst (certificateRequestPolicy ext v ctx policy w) = ([], Some e)
     \<and> last (calls_made ctx (webhooks v) policy w) = (response, Some e)
     \<and> length (calls_made ctx (webhooks v) policy w) \<le> length (webhooks v)
     \<and> (\<forall>others. certificateRequestPolicy ext
            (v\<lparr>webhooks := take (length (calls_made ctx (webhooks v) policy w)) (webhooks v) @ others\<rparr>)
            ctx policy w = certificateRequestPolicy ext v ctx policy w)
     \<and> (\<forall>req. RequestKind req = Some (recognised_kind ext) \<and>
            Decode ext (decoder v) req = Decoded policy \<longrightarrow>
            fst (Handle ext v ctx req w) =
              Returns (admission_Errored StatusInternalServerError e))"
proof -
  have a: "fst (certificateRequestPolicy ext v ctx policy w) = ([], Some e)"
    and b: "last (calls_made ctx (webhooks v) policy w) = (response, Some e)"
    using webhooks_loop_failed [OF assms] by (simp_all add: certificateRequestPolicy_def)
  have c: "certificateRequestPolicy ext
            (v\<lparr>webhooks := take (length (calls_made ctx (webhooks v) policy w)) (webhooks v) @ others\<rparr>)
            ctx policy w = certificateRequestPolicy ext v ctx policy w" for others
    using webhooks_loop_later_plugins [OF assms]
    by (simp add: certificateRequestPolicy_def base_validations_webhooks)
  have d: "fst (Handle ext v ctx req w) = Returns (admission_Errored StatusInternalServerError e)"
    if "RequestKind req = Some (recognised_kind ext)" "Decode ext (decoder v) req = Decoded policy"
    for req
    using a Handle_recognised [OF that, of ctx w]
    by (cases "certificateRequestPolicy ext v ctx policy w")
       (auto simp: StatusInternalServerError_def)
  from a b c d calls_made_length [of ctx "webhooks v" policy w] show ?thesis by blast
qed

theorem C1_execution_error_witness:
  "(\<lparr>Allowed = True, Errors = []\<rparr>, Some ''boom'') \<in>
     set (calls_made ()
       (webhooks (ex_validator [''rego'']
          [ex_plugin ''p1'' False [OtherError ''Forbidden'' [''spec''] ''no''] None,
           ex_plugin ''p2'' True [] (Some ''boom''),
           ex_plugin ''p3'' True [] None]
          (Some (ex_parse (ex_policy [''b''] False None)))))
       (ex_policy [''b''] False None) [])
   \<and> certificateRequestPolicy ex_ext
       (ex_validator [''rego'']
          [ex_plugin ''p1'' False [OtherError ''Forbidden'' [''spec''] ''no''] None,
           ex_plugin ''p2'' True [] (Some ''boom''),
           ex_plugin ''p3'' True [] None]
          (Some (ex_parse (ex_policy [''b''] False None))))
       () (ex_policy [''b''] False None) [] =
       (([], Some ''boom''), ex_policy [''b''] False None, [''p1'', ''p2''])
   \<and> Handle ex_ext
       (ex_validator [''rego'']
          [ex_plugin ''p1'' False [OtherError ''Forbidden'' [''spec''] ''no''] None,
           ex_plugin ''p2'' True [] (Some ''boom''),
           ex_plugin ''p3'' True [] None]
          (Some (ex_parse (ex_policy [''b''] False None))))
       () (ex_request (Some (recognised_kind ex_ext)) ''{policy}'') [] =
       (Returns (admission_Errored 500 ''boom''), [''p1'', ''p2''])"
proof -
  let ?v = "ex_validator [''rego'']
          [ex_plugin ''p1'' False [OtherError ''Forbidden'' [''spec''] ''no''] None,
           ex_plugin ''p2'' True [] (Some ''boom''),
           ex_plugin ''p3'' True [] None]
          (Some (ex_parse (ex_policy [''b''] False None)))"
  have h: "(\<lparr>Allowed = True, Errors = []\<rparr>, Some ''boom'') \<in>
     set (calls_made () (webhooks ?v) (ex_policy [''b''] False None) [])"
    by (simp add: ex_validator_def ex_plugin_def)
  show ?thesis
    using h C1_execution_error [OF h, of ex_ext]
    by (simp add: ex_validator_def ex_plugin_def ex_ext_def ex_request_def ex_parse_def
        ex_policy_def recognised_kind_def certificateRequestPolicy_def base_validations_def
        Handle_def StatusInternalServerError_def)
qed

subsection \<open>C2: the unknown-plugin check\<close>

lemma length_filter_eq_distinct:
  "distinct xs \<Longrightarrow> length (filter (\<lambda>x. x = a) xs) = (if a \<in> set xs then 1 else 0)"
  by (induction xs) auto

lemma length_filter_eq_map_distinct:
  assumes "distinct xs" "inj f"
  shows "length (filter (\<lambda>e. e = f a) (map f xs)) = (if a \<in> set xs then 1 else 0)"
proof -
  from assms(2) have "filter (\<lambda>e. e = f a) (map f xs) = map f (filter (\<lambda>x. x = a) xs)"
    by (simp add: filter_map comp_def inj_eq)
  with length_filter_eq_distinct [OF assms(1), of a] show ?thesis by simp
qed

lemma filter_eq_NotSupported_others:
  "filter (\<lambda>e. e = NotSupported p x vs) (selector_errors policy) = []"
  "filter (\<lambda>e. e = NotSupported p x vs) (match_labels_errors ext policy) = []"
  by (simp_all add: selector_errors_def match_labels_errors_def split: option.splits list.splits)

text \<open>
  Claim C2. For a plugin map (keys distinct, in any iteration order) the base validations
  hold, at their front, one not-supported error on the path \<open>spec.plugins\<close> for each
  declared name that is not registered, each listing the whole registry, in the
  lexicographic order of the names; every such name has exactly one error, the rest of
  the list holds no not-supported error, and two iteration orders of the same keys give
  the same errors. When no plugin returns an execution error, the list returned by
  \<^const>\<open>certificateRequestPolicy\<close> begins with them.
\<close>

theorem C2_unknown_plugins_sorted:
  assumes "distinct (map fst (Plugins (Spec policy)))"
  shows "base_validations ext v policy =
           map (\<lambda>name. NotSupported (Child (NewPath ''spec'') [''plugins'']) (StringValue name)
                  (registeredPlugins v))
             (sorted_list_of_set (set (map fst (Plugins (Spec policy))) - set (registeredPlugins v)))
           @ selector_errors policy @ match_labels_errors ext policy
     \<and> filter (is_NotSupported_on (Child (NewPath ''spec'') [''plugins'']))
           (selector_errors policy @ match_labels_errors ext policy) = []
     \<and> (\<forall>name. length (filter (\<lambda>e. e = NotSupported (Child (NewPath ''spec'') [''plugins''])
                                        (StringValue name) (registeredPlugins v))
                         (base_validations ext v policy)) =
                 (if name \<in> set (map fst (Plugins (Spec policy))) \<and> name \<notin> set (registeredPlugins v)
                  then 1 else 0))
     \<and> (\<forall>policy'. distinct (map fst (Plugins (Spec policy'))) \<and>
           set (map fst (Plugins (Spec policy'))) = set (map fst (Plugins (Spec policy))) \<longrightarrow>
           filter (is_NotSupported_on (Child (NewPath ''spec'') [''plugins'']))
             (base_validations ext v policy') =
           filter (is_NotSupported_on (Child (NewPath ''spec'') [''plugins'']))
             (base_validations ext v policy))
     \<and> path_String (Child (NewPath ''spec'') [''plugins'']) = ''spec.plugins''
     \<and> (snd (fst (certificateRequestPolicy ext v ctx policy w)) = None \<longrightarrow>
          fst (fst (certificateRequestPolicy ext v ctx policy w)) =
            map (\<lambda>name. NotSupported (Child (NewPath ''spec'') [''plugins'']) (StringValue name)
                   (registeredPlugins v))
              (sorted_list_of_set (set (map fst (Plugins (Spec policy))) - set (registeredPlugins v)))
            @ selector_errors policy @ match_labels_errors ext policy
            @ plugin_errors (calls_made ctx (webhooks v) policy w))"
proof -
  let ?U = "set (map fst (Plugins (Spec policy))) - set (registeredPlugins v)"
  let ?f = "\<lambda>name. NotSupported [''spec'', ''plugins''] (StringValue name) (registeredPlugins v)"
  have names: "unknown_plugin_names v policy = sorted_list_of_set ?U"
    by (rule unknown_plugin_names_distinct [OF assms])
  have base: "base_validations ext v policy =
      map ?f (sorted_list_of_set ?U) @ selector_errors policy @ match_labels_errors ext policy"
    by (simp add: base_validations_eq unknown_plugin_errors_def names)
  have rest: "filter (is_NotSupported_on [''spec'', ''plugins''])
      (selector_errors policy @ match_labels_errors ext policy) = []"
    by simp
  have once: "length (filter (\<lambda>e. e = ?f name) (base_validations ext v policy)) =
      (if name \<in> set (map fst (Plugins (Spec policy))) \<and> name \<notin> set (registeredPlugins v)
       then 1 else 0)" for name
  proof -
    have "inj ?f" by (simp add: inj_def)
    moreover have "distinct (sorted_list_of_set ?U)" by simp
    ultimately have "length (filter (\<lambda>e. e = ?f name) (map ?f (sorted_list_of_set ?U))) =
        (if name \<in> set (sorted_list_of_set ?U) then 1 else 0)"
      by (rule length_filter_eq_map_distinct [rotated])
    then show ?thesis
      by (simp add: base filter_eq_NotSupported_others)
  qed
  have order: "filter (is_NotSupported_on [''spec'', ''plugins'']) (base_validations ext v policy') =
      filter (is_NotSupported_on [''spec'', ''plugins'']) (base_validations ext v policy)"
    if "distinct (map fst (Plugins (Spec policy')))"
      and "set (map fst (Plugins (Spec policy'))) = set (map fst (Plugins (Spec policy)))"
    for policy'
    using that unknown_plugin_names_distinct [of policy' v] names
    by (simp add: base_validations_eq unknown_plugin_errors_def)
  have crp: "snd (fst (certificateRequestPolicy ext v ctx policy w)) = None \<longrightarrow>
      fst (fst (certificateRequestPolicy ext v ctx policy w)) =
        map ?f (sorted_list_of_set ?U) @ selector_errors policy @ match_labels_errors ext policy
        @ plugin_errors (calls_made ctx (webhooks v) policy w)"
    by (simp add: certificateRequestPolicy_no_error base)
  have path: "path_String [''spec'', ''plugins''] = ''spec.plugins''" by simp
  from base rest once order crp path show ?thesis
    unfolding NewPath_def Child_def append.simps by blast
qed

theorem C2_unknown_plugins_sorted_witness:
  "distinct (map fst (Plugins (Spec (ex_policy [''b'', ''rego'', ''a''] True None))))
   \<and> base_validations ex_ext (ex_validator [''rego'', ''allowed''] [] None)
       (ex_policy [''b'', ''rego'', ''a''] True None) =
       [NotSupported [''spec'', ''plugins''] (StringValue ''a'') [''rego'', ''allowed''],
        NotSupported [''spec'', ''plugins''] (StringValue ''b'') [''rego'', ''allowed'']]
   \<and> base_validations ex_ext (ex_validator [''rego'', ''allowed''] [] None)
       (ex_policy [''a'', ''b'', ''rego''] True None) =
       base_validations ex_ext (ex_validator [''rego'', ''allowed''] [] None)
       (ex_policy [''b'', ''rego'', ''a''] True None)"
proof -
  have h: "distinct (map fst (Plugins (Spec (ex_policy [''b'', ''rego'', ''a''] True None))))"
    by (simp add: ex_policy_def)
  show ?thesis
    using h C2_unknown_plugins_sorted [OF h, of ex_ext "ex_validator [''rego'', ''allowed''] [] None" "()" "[]"]
    by (simp add: ex_policy_def ex_validator_def ex_ext_def base_validations_def NewPath_def Child_def)
qed

subsection \<open>C3: allowed or denied\<close>

text \<open>
  Claim C3 as stated fails on a resource with no unknown plugin name, no plugin, and
  exactly one sub-selector, a namespace selector that is not empty: its one label has an
  empty key, the labels do not compile, and the request is denied.
\<close>

theorem C3_counterexample:
  "RequestKind (ex_request (Some (recognised_kind ex_ext)) ''{policy}'') = Some (recognised_kind ex_ext)
   \<and> Decode ex_ext
       (decoder (ex_validator [''rego''] [] (Some (ex_parse (ex_policy [''rego''] False (Some [([], ''x'')]))))))
       (ex_request (Some (recognised_kind ex_ext)) ''{policy}'') =
       Decoded (ex_policy [''rego''] False (Some [([], ''x'')]))
   \<and> unknown_plugin_names (ex_validator [''rego''] [] (Some (ex_parse (ex_policy [''rego''] False (Some [([], ''x'')])))))
       (ex_policy [''rego''] False (Some [([], ''x'')])) = []
   \<and> IssuerRef (Selector (Spec (ex_policy [''rego''] False (Some [([], ''x'')])))) = None
   \<and> Namespace (Selector (Spec (ex_policy [''rego''] False (Some [([], ''x'')])))) =
       Some \<lparr>MatchLabels = [([], ''x'')]\<rparr>
   \<and> webhooks (ex_validator [''rego''] [] (Some (ex_parse (ex_policy [''rego''] False (Some [([], ''x'')]))))) = []
   \<and> Handle ex_ext
       (ex_validator [''rego''] [] (Some (ex_parse (ex_policy [''rego''] False (Some [([], ''x'')])))))
       () (ex_request (Some (recognised_kind ex_ext)) ''{policy}'') [] =
       (Returns (admission_Denied ''denied with * field errors''), [])"
  by (simp add: ex_validator_def ex_ext_def ex_request_def ex_parse_def
      ex_policy_def recognised_kind_def certificateRequestPolicy_def base_validations_def
      Handle_def unknown_plugin_names_def NewPath_def Child_def)

text \<open>
  Claim C3, amended. For a request of the recognised kind that decodes and whose validation
  returns no execution error, \<^const>\<open>Handle\<close> returns \<^verbatim>\<open>Allowed\<close> with the confirmation
  message when the aggregated list is empty and \<^verbatim>\<open>Denied\<close> with the rendered list
  otherwise. In particular a resource all of whose plugin names are registered, with at
  least one sub-selector present, whose namespace matchLabels (when present and
  non-empty) compile, and which no plugin denies, is allowed. (As stated the claim asks
  nothing of the labels, and a namespace sub-selector whose labels do not compile is
  denied.)
\<close>

theorem C3_allowed_iff_no_errors:
  assumes "RequestKind req = Some (recognised_kind ext)"
    and "Decode ext (decoder v) req = Decoded policy"
    and "snd (fst (certificateRequestPolicy ext v ctx policy w)) = None"
  shows "(fst (fst (certificateRequestPolicy ext v ctx policy w)) = [] \<longrightarrow>
            fst (Handle ext v ctx req w) =
              Returns (admission_Allowed ''CertificateRequestPolicy validated''))
     \<and> (fst (fst (certificateRequestPolicy ext v ctx policy w)) \<noteq> [] \<longrightarrow>
            fst (Handle ext v ctx req w) =
              Returns (admission_Denied
                (ToAggregateError ext (fst (fst (certificateRequestPolicy ext v ctx policy w))))))
     \<and> (set (map fst (Plugins (Spec policy))) \<subseteq> set (registeredPlugins v) \<and>
        (IssuerRef (Selector (Spec policy)) \<noteq> None \<or> Namespace (Selector (Spec policy)) \<noteq> None) \<and>
        (\<forall>nsSel. Namespace (Selector (Spec policy)) = Some nsSel \<and> MatchLabels nsSel \<noteq> [] \<longrightarrow>
           LabelSelectorAsSelector ext (MatchLabels nsSel) = None) \<and>
        (\<forall>c \<in> set (calls_made ctx (webhooks v) policy w). Allowed (fst c)) \<longrightarrow>
            fst (Handle ext v ctx req w) =
              Returns (admission_Allowed ''CertificateRequestPolicy validated''))"
proof -
  obtain el err policy' w' where r: "certificateRequestPolicy ext v ctx policy w = ((el, err), policy', w')"
    by (cases "certificateRequestPolicy ext v ctx policy w") auto
  with assms(3) have e: "err = None" by simp
  have H: "fst (Handle ext v ctx req w) =
      (if el \<noteq> [] then Returns (admission_Denied (ToAggregateError ext el))
       else Returns (admission_Allowed ''CertificateRequestPolicy validated''))"
    using Handle_recognised [OF assms(1,2), of ctx w] r e by simp
  have el: "el = base_validations ext v policy @ plugin_errors (calls_made ctx (webhooks v) policy w)"
    using certificateRequestPolicy_no_error [OF assms(3)] r by simp
  have particular: "el = []"
    if names: "set (map fst (Plugins (Spec policy))) \<subseteq> set (registeredPlugins v)"
      and sel: "IssuerRef (Selector (Spec policy)) \<noteq> None \<or> Namespace (Selector (Spec policy)) \<noteq> None"
      and labels: "\<forall>nsSel. Namespace (Selector (Spec policy)) = Some nsSel \<and> MatchLabels nsSel \<noteq> [] \<longrightarrow>
           LabelSelectorAsSelector ext (MatchLabels nsSel) = None"
      and allowed: "\<forall>c \<in> set (calls_made ctx (webhooks v) policy w). Allowed (fst c)"
  proof -
    from names have "filter (\<lambda>name. name \<notin> set (registeredPlugins v)) (map fst (Plugins (Spec policy))) = []"
      by (auto simp: filter_empty_conv)
    then have u: "unknown_plugin_errors v policy = []"
      by (simp add: unknown_plugin_errors_def unknown_plugin_names_def)
    from sel have s: "selector_errors policy = []"
      by (auto simp: selector_errors_def)
    from labels have m: "match_labels_errors ext policy = []"
      by (auto simp: match_labels_errors_def split: option.splits list.splits)
    from allowed have p: "plugin_errors (calls_made ctx (webhooks v) policy w) = []"
      by (auto simp: plugin_errors_def)
    from u s m p el show ?thesis by (simp add: base_validations_eq)
  qed
  from H particular r show ?thesis by simp
qed


theorem C3_allowed_iff_no_errors_witness:
  "RequestKind (ex_request (Some (recognised_kind ex_ext)) ''{policy}'') = Some (recognised_kind ex_ext)
   \<and> Handle ex_ext
       (ex_validator [''rego''] [ex_plugin ''p'' True [] None]
          (Some (ex_parse (ex_policy [''rego''] False (Some [(''team'', ''x'')])))))
       () (ex_request (Some (recognised_kind ex_ext)) ''{policy}'') [] =
       (Returns (admission_Allowed ''CertificateRequestPolicy validated''), [''p''])
   \<and> Handle ex_ext
       (ex_validator [''rego''] [ex_plugin ''p'' True [] None]
          (Some (ex_parse (ex_policy [''rego''] False None))))
       () (ex_request (Some (recognised_kind ex_ext)) ''{policy}'') [] =
       (Returns (admission_Denied ''denied with * field errors''), [''p''])"
proof -
  let ?req = "ex_request (Some (recognised_kind ex_ext)) ''{policy}''"
  let ?v = "\<lambda>policy. ex_validator [''rego''] [ex_plugin ''p'' True [] None] (Some (ex_parse policy))"
  let ?good = "ex_policy [''rego''] False (Some [(''team'', ''x'')])"
  let ?bad = "ex_policy [''rego''] False None"
  have h1: "RequestKind ?req = Some (recognised_kind ex_ext)"
    by (simp add: ex_request_def)
  have h2: "Decode ex_ext (decoder (?v policy)) ?req = Decoded policy" for policy
    by (simp add: ex_ext_def ex_validator_def ex_request_def ex_parse_def)
  have h3: "snd (fst (certificateRequestPolicy ex_ext (?v policy) () policy' [])) = None" for policy policy'
    by (simp add: certificateRequestPolicy_def ex_validator_def ex_plugin_def)
  have w1: "snd (Handle ex_ext (?v ?good) () ?req []) = [''p'']"
    and w2: "snd (Handle ex_ext (?v ?bad) () ?req []) = [''p'']"
    by (simp_all add: ex_validator_def ex_plugin_def ex_ext_def ex_request_def ex_parse_def
        recognised_kind_def certificateRequestPolicy_def Handle_def split: option.splits)
  have g: "fst (Handle ex_ext (?v ?good) () ?req []) =
      Returns (admission_Allowed ''CertificateRequestPolicy validated'')"
    using C3_allowed_iff_no_errors [OF h1 h2 h3, of ?good]
    by (simp add: ex_policy_def ex_validator_def ex_plugin_def ex_ext_def)
  have b: "fst (Handle ex_ext (?v ?bad) () ?req []) =
      Returns (admission_Denied ''denied with * field errors'')"
    using C3_allowed_iff_no_errors [OF h1 h2 h3, of ?bad]
    by (simp add: ex_policy_def ex_validator_def ex_plugin_def ex_ext_def
        certificateRequestPolicy_def base_validations_def)
  from h1 g b w1 w2 show ?thesis
    by (simp add: prod_eq_iff)
qed

subsection \<open>C4: the selector-presence check\<close>

text \<open>
  Claim C4. When both the issuer-reference and the namespace sub-selector are nil, the
  base validations hold exactly one required-field error on the path \<open>spec.selector\<close>,
  with the hint that \<open>{}\<close> on either matches everything; when at least one of them is
  present they hold none. When no plugin returns an execution error the list
  \<^const>\<open>certificateRequestPolicy\<close> returns begins with the base validations.
\<close>

theorem C4_selector_required:
  "filter (is_Required_on (Child (NewPath ''spec'') [''selector''])) (base_validations ext v policy) =
     (if IssuerRef (Selector (Spec policy)) = None \<and> Namespace (Selector (Spec policy)) = None
      then [Required (Child (NewPath ''spec'') [''selector''])
              ''one of issuerRef or namespace must be defined, hint: `{}` on either matches everything'']
      else [])
   \<and> path_String (Child (NewPath ''spec'') [''selector'']) = ''spec.selector''
   \<and> (snd (fst (certificateRequestPolicy ext v ctx policy w)) = None \<longrightarrow>
        fst (fst (certificateRequestPolicy ext v ctx policy w)) =
          base_validations ext v policy @ plugin_errors (calls_made ctx (webhooks v) policy w))"
proof -
  have "filter (is_Required_on [''spec'', ''selector'']) (base_validations ext v policy) =
          selector_errors policy"
    by (simp add: base_validations_eq)
  moreover have "snd (fst (certificateRequestPolicy ext v ctx policy w)) = None \<longrightarrow>
        fst (fst (certificateRequestPolicy ext v ctx policy w)) =
          base_validations ext v policy @ plugin_errors (calls_made ctx (webhooks v) policy w)"
    by (simp add: certificateRequestPolicy_no_error)
  ultimately show ?thesis
    by (simp add: selector_errors_def NewPath_def Child_def)
qed

theorem C4_selector_required_witness:
  "filter (is_Required_on [''spec'', ''selector''])
     (base_validations ex_ext (ex_validator [''rego''] [] None) (ex_policy [''rego''] False None)) =
     [Required [''spec'', ''selector'']
        ''one of issuerRef or namespace must be defined, hint: `{}` on either matches everything'']
   \<and> filter (is_Required_on [''spec'', ''selector''])
     (base_validations ex_ext (ex_validator [''rego''] [] None) (ex_policy [''rego''] True None)) = []
   \<and> fst (certificateRequestPolicy ex_ext
        (ex_validator [''rego''] [ex_plugin ''p'' True [] None] None) () (ex_policy [''rego''] False None) []) =
       ([Required [''spec'', ''selector'']
        ''one of issuerRef or namespace must be defined, hint: `{}` on either matches everything''], None)"
  using C4_selector_required [of ex_ext "ex_validator [''rego''] [] None" "ex_policy [''rego''] False None" "()" "[]"]
    C4_selector_required [of ex_ext "ex_validator [''rego''] [] None" "ex_policy [''rego''] True None" "()" "[]"]
    C4_selector_required [of ex_ext "ex_validator [''rego''] [ex_plugin ''p'' True [] None] None" "ex_policy [''rego''] False None" "()" "[]"]
  by (simp add: ex_policy_def ex_validator_def ex_plugin_def ex_ext_def NewPath_def Child_def
      certificateRequestPolicy_def base_validations_def)

subsection \<open>C5: the matchLabels check\<close>

text \<open>
  Claim C5. When the namespace sub-selector is present with a non-empty matchLabels and
  \<^verbatim>\<open>LabelSelectorAsSelector\<close> fails on it, the base validations hold exactly one
  invalid-field error on the path \<open>spec.selector.namespace.matchLabels\<close>, carrying the
  labels and the text of the error; when the labels compile, or are empty, or the
  namespace sub-selector is nil, they hold none.
\<close>

theorem C5_match_labels_invalid:
  "(\<forall>nsSel err.
      Namespace (Selector (Spec policy)) = Some nsSel \<and> MatchLabels nsSel \<noteq> [] \<and>
      LabelSelectorAsSelector ext (MatchLabels nsSel) = Some err \<longrightarrow>
      filter (is_Invalid_on (Child (NewPath ''spec'') [''selector'', ''namespace'', ''matchLabels'']))
        (base_validations ext v policy) =
        [Invalid (Child (NewPath ''spec'') [''selector'', ''namespace'', ''matchLabels''])
           (LabelsValue (MatchLabels nsSel)) err])
   \<and> (Namespace (Selector (Spec policy)) = None \<or>
       (\<exists>nsSel. Namespace (Selector (Spec policy)) = Some nsSel \<and>
          (MatchLabels nsSel = [] \<or> LabelSelectorAsSelector ext (MatchLabels nsSel) = None)) \<longrightarrow>
      filter (is_Invalid_on (Child (NewPath ''spec'') [''selector'', ''namespace'', ''matchLabels'']))
        (base_validations ext v policy) = [])
   \<and> path_String (Child (NewPath ''spec'') [''selector'', ''namespace'', ''matchLabels'']) =
       ''spec.selector.namespace.matchLabels''
   \<and> (snd (fst (certificateRequestPolicy ext v ctx policy w)) = None \<longrightarrow>
        fst (fst (certificateRequestPolicy ext v ctx policy w)) =
          base_validations ext v policy @ plugin_errors (calls_made ctx (webhooks v) policy w))"
proof -
  have "filter (is_Invalid_on [''spec'', ''selector'', ''namespace'', ''matchLabels''])
          (base_validations ext v policy) = match_labels_errors ext policy"
    by (simp add: base_validations_eq)
  moreover have "snd (fst (certificateRequestPolicy ext v ctx policy w)) = None \<longrightarrow>
        fst (fst (certificateRequestPolicy ext v ctx policy w)) =
          base_validations ext v policy @ plugin_errors (calls_made ctx (webhooks v) policy w)"
    by (simp add: certificateRequestPolicy_no_error)
  ultimately show ?thesis
    by (auto simp: match_labels_errors_def NewPath_def Child_def split: list.splits)
qed

theorem C5_match_labels_invalid_witness:
  "filter (is_Invalid_on [''spec'', ''selector'', ''namespace'', ''matchLabels''])
     (base_validations ex_ext (ex_validator [''rego''] [] None)
        (ex_policy [''rego''] False (Some [([], ''x'')]))) =
     [Invalid [''spec'', ''selector'', ''namespace'', ''matchLabels'']
        (LabelsValue [([], ''x'')]) ''name part must be non-empty'']
   \<and> filter (is_Invalid_on [''spec'', ''selector'', ''namespace'', ''matchLabels''])
     (base_validations ex_ext (ex_validator [''rego''] [] None)
        (ex_policy [''rego''] False (Some [(''team'', ''x'')]))) = []
   \<and> filter (is_Invalid_on [''spec'', ''selector'', ''namespace'', ''matchLabels''])
     (base_validations ex_ext (ex_validator [''rego''] [] None)
        (ex_policy [''rego''] False (Some []))) = []
   \<and> filter (is_Invalid_on [''spec'', ''selector'', ''namespace'', ''matchLabels''])
     (base_validations ex_ext (ex_validator [''rego''] [] None)
        (ex_policy [''rego''] True None)) = []
   \<and> fst (certificateRequestPolicy ex_ext
        (ex_validator [''rego''] [ex_plugin ''p'' True [] None] None) ()
        (ex_policy [''rego''] False (Some [([], ''x'')])) []) =
       ([Invalid [''spec'', ''selector'', ''namespace'', ''matchLabels'']
        (LabelsValue [([], ''x'')]) ''name part must be non-empty''], None)"
  using
    C5_match_labels_invalid [of "ex_policy [''rego''] False (Some [([], ''x'')])" ex_ext
      "ex_validator [''rego''] [] None" "()" "[]"]
    C5_match_labels_invalid [of "ex_policy [''rego''] False (Some [(''team'', ''x'')])" ex_ext
      "ex_validator [''rego''] [] None" "()" "[]"]
    C5_match_labels_invalid [of "ex_policy [''rego''] False (Some [])" ex_ext
      "ex_validator [''rego''] [] None" "()" "[]"]
    C5_match_labels_invalid [of "ex_policy [''rego''] True None" ex_ext
      "ex_validator [''rego''] [] None" "()" "[]"]
  by (simp add: ex_policy_def ex_validator_def ex_plugin_def ex_ext_def NewPath_def Child_def
      certificateRequestPolicy_def base_validations_def)

subsection \<open>C6: a kind that is not recognised\<close>

text \<open>
  Claim C6. A request whose declared kind is present and is not the
  CertificateRequestPolicy kind of the policy group at \<open>v1alpha1\<close> is answered with
  \<^verbatim>\<open>Denied\<close>, never with \<^verbatim>\<open>Errored\<close> (nor by a panic), and the message names the
  group, the version and the kind that were sent; the world is left as it was.
\<close>

theorem C6_unrecognised_kind:
  assumes "RequestKind req = Some kind"
    and "kind \<noteq> recognised_kind ext"
  shows "Handle ext v ctx req w =
           (Returns (admission_Denied
              (''validation request for unrecognised resource type: ''
                 @ Group kind @ ''/'' @ Version kind @ '' '' @ Kind kind)), w)
     \<and> (\<forall>code err. fst (Handle ext v ctx req w) \<noteq> Returns (admission_Errored code err))
     \<and> fst (Handle ext v ctx req w) \<noteq> Panics"
  using assms by (simp add: Handle_def recognised_kind_def)

theorem C6_unrecognised_kind_witness:
  "RequestKind (ex_request (Some \<lparr>Group = ''apps'', Version = ''v1'', Kind = ''Deployment''\<rparr>) ''{}'') =
     Some \<lparr>Group = ''apps'', Version = ''v1'', Kind = ''Deployment''\<rparr>
   \<and> \<lparr>Group = ''apps'', Version = ''v1'', Kind = ''Deployment''\<rparr> \<noteq> recognised_kind ex_ext
   \<and> Handle ex_ext (ex_validator [''rego''] [ex_plugin ''p'' True [] None] None) ()
       (ex_request (Some \<lparr>Group = ''apps'', Version = ''v1'', Kind = ''Deployment''\<rparr>) ''{}'') [] =
       (Returns (admission_Denied
          ''validation request for unrecognised resource type: apps/v1 Deployment''), [])"
proof -
  let ?kind = "\<lparr>Group = ''apps'', Version = ''v1'', Kind = ''Deployment''\<rparr>"
  have h1: "RequestKind (ex_request (Some ?kind) ''{}'') = Some ?kind"
    by (simp add: ex_request_def)
  have h2: "?kind \<noteq> recognised_kind ex_ext"
    by (simp add: recognised_kind_def ex_ext_def)
  show ?thesis
    using h1 h2 C6_unrecognised_kind [OF h1 h2, of "ex_validator [''rego''] [ex_plugin ''p'' True [] None] None" "()" "[]"]
    by simp
qed

subsection \<open>C7: the decoder handle\<close>

lemma Handle_Panics_iff:
  "fst (Handle ext v ctx req w) = Panics \<longleftrightarrow>
     RequestKind req = Some (recognised_kind ext) \<and> Decode ext (decoder v) req = DecodePanic"
  by (simp add: Handle_def recognised_kind_def split: option.splits DecodeResult.splits prod.splits)

lemma InjectDecoder_decoder:
  "decoder (fst (InjectDecoder v d)) = (if snd (InjectDecoder v d) = Blocked then decoder v else d)"
  by (simp add: InjectDecoder_def split: option.splits)

lemma step_decoder_set:
  assumes "decoder (fst s) \<noteq> None" and "op \<noteq> OpInjectDecoder None"
  shows "decoder (fst (step ext s op)) \<noteq> None"
proof (cases s)
  case (Pair v w)
  show ?thesis
  proof (cases op)
    case (OpInjectDecoder d)
    with assms Pair show ?thesis by (auto simp: InjectDecoder_decoder)
  next
    case OpCheck
    with assms Pair show ?thesis by simp
  next
    case (OpHandle ctx req)
    with assms Pair show ?thesis
      by (simp split: option.splits prod.splits HandleResult.splits)
  qed
qed

lemma step_lock_free:
  assumes "lock_free (lock (fst s))" and "decoder (fst s) \<noteq> None"
    and "\<forall>d req. Decode ext (Some d) req \<noteq> DecodePanic"
  shows "lock_free (lock (fst (step ext s op)))"
proof (cases s)
  case (Pair v w)
  show ?thesis
  proof (cases op)
    case (OpInjectDecoder d)
    with assms Pair show ?thesis
      by (simp add: InjectDecoder_def Lock_def lock_free_def)
  next
    case OpCheck
    with assms Pair show ?thesis by simp
  next
    case (OpHandle ctx req)
    from assms(2,3) Pair have "fst (Handle ext v ctx req w) \<noteq> Panics"
      by (auto simp: Handle_Panics_iff)
    with assms(1) Pair OpHandle show ?thesis
      by (cases "Handle ext v ctx req w")
         (auto simp: RLock_def RUnlock_def lock_free_def split: HandleResult.splits)
  qed
qed

lemma run_ops_decoder_set:
  assumes "decoder (fst s) \<noteq> None" and "\<forall>op \<in> set ops. op \<noteq> OpInjectDecoder None"
  shows "decoder (fst (run_ops ext s ops)) \<noteq> None"
  using assms
proof (induction ops arbitrary: s)
  case Nil
  then show ?case by (simp add: run_ops_def)
next
  case (Cons op ops)
  from Cons.prems have "decoder (fst (step ext s op)) \<noteq> None"
    by (simp add: step_decoder_set)
  moreover from Cons.prems have "\<forall>op \<in> set ops. op \<noteq> OpInjectDecoder None" by simp
  ultimately have "decoder (fst (run_ops ext (step ext s op) ops)) \<noteq> None"
    by (rule Cons.IH)
  then show ?case by (simp add: run_ops_def)
qed

lemma run_ops_lock_free:
  assumes "lock_free (lock (fst s))" and "decoder (fst s) \<noteq> None"
    and "\<forall>op \<in> set ops. op \<noteq> OpInjectDecoder None"
    and "\<forall>d req. Decode ext (Some d) req \<noteq> DecodePanic"
  shows "lock_free (lock (fst (run_ops ext s ops)))"
  using assms(1,2,3)
proof (induction ops arbitrary: s)
  case Nil
  then show ?case by (simp add: run_ops_def)
next
  case (Cons op ops)
  from Cons.prems assms(4) have "lock_free (lock (fst (step ext s op)))"
    by (simp add: step_lock_free)
  moreover from Cons.prems have "decoder (fst (step ext s op)) \<noteq> None"
    by (simp add: step_decoder_set)
  moreover from Cons.prems have "\<forall>op \<in> set ops. op \<noteq> OpInjectDecoder None" by simp
  ultimately have "lock_free (lock (fst (run_ops ext (step ext s op) ops)))"
    by (rule Cons.IH)
  then show ?case by (simp add: run_ops_def)
qed

lemma check_not_ready_iff:
  "check v = Returned (Some ''not ready'') \<longleftrightarrow> \<not> writer_waiting (lock v) \<and> decoder v = None"
  by (simp add: check_def RLock_def)

lemma check_ready_iff:
  "check v = Returned None \<longleftrightarrow> \<not> writer_waiting (lock v) \<and> decoder v \<noteq> None"
  by (simp add: check_def RLock_def)

lemma InjectDecoder_Returned:
  "snd (InjectDecoder v d) = Returned None \<longleftrightarrow> lock_free (lock v)"
  by (simp add: InjectDecoder_def Lock_def lock_free_def)

lemma InjectDecoder_free:
  "lock_free (lock v) \<Longrightarrow> InjectDecoder v d = (v\<lparr>decoder := d\<rparr>, Returned None)"
  by (simp add: InjectDecoder_def Lock_def lock_free_def)

text \<open>
  Claim C7 as stated fails on the sequence that injects a decoder and then injects nil:
  the readiness check succeeds after the first injection and returns \<open>not ready\<close> again
  after the second. It fails as well when a request of the recognised kind is handled
  first and \<^verbatim>\<open>Decode\<close> panics on the unset handle: the read lock stays held, the
  injection that follows waits for the lock for ever and stores nothing, and the
  readiness check after it never returns.
\<close>

theorem C7_counterexample:
  "snd (InjectDecoder (ex_validator [] [] None) (Some (ex_parse (ex_policy [] True None)))) = Returned None
   \<and> check (fst (InjectDecoder (ex_validator [] [] None) (Some (ex_parse (ex_policy [] True None))))) =
       Returned None
   \<and> check (fst (run_ops ex_ext
        (fst (InjectDecoder (ex_validator [] [] None) (Some (ex_parse (ex_policy [] True None)))), [])
        [OpCheck, OpInjectDecoder None])) = Returned (Some ''not ready'')
   \<and> snd (InjectDecoder
        (fst (run_ops ex_ext (ex_validator [] [] None, [])
           [OpHandle () (ex_request (Some (recognised_kind ex_ext)) ''{policy}'')]))
        (Some (ex_parse (ex_policy [] True None)))) = Blocked
   \<and> decoder (fst (run_ops ex_ext (ex_validator [] [] None, [])
        [OpHandle () (ex_request (Some (recognised_kind ex_ext)) ''{policy}''),
         OpInjectDecoder (Some (ex_parse (ex_policy [] True None)))])) = None
   \<and> check (fst (run_ops ex_ext (ex_validator [] [] None, [])
        [OpHandle () (ex_request (Some (recognised_kind ex_ext)) ''{policy}''),
         OpInjectDecoder (Some (ex_parse (ex_policy [] True None)))])) = Blocked"
  by (simp add: ex_validator_def ex_ext_def ex_request_def recognised_kind_def
      InjectDecoder_def check_def run_ops_def Lock_def RLock_def RUnlock_def Handle_def)

text \<open>
  Claim C7, amended. While the handle is unset \<^const>\<open>check\<close>, unless it waits for the
  lock, returns \<open>not ready\<close>. On a free lock \<^const>\<open>InjectDecoder\<close> stores the pointer it
  is given, nil or not, and returns no error; while a read lock is held it never returns
  and stores nothing, and \<^const>\<open>check\<close> after it never returns. After an injection
  that returned, of a decoder that is not nil, and as long as no later call of
  \<^const>\<open>InjectDecoder\<close> passes nil, the handle is set in every state of every sequence
  of operations, so that no operation finds it unset and \<^const>\<open>check\<close> never returns
  \<open>not ready\<close>; when moreover \<^verbatim>\<open>Decode\<close> does not panic on a handle that is set, the
  lock stays free, and \<^const>\<open>check\<close> returns success in every such state.
\<close>

theorem C7_decoder_stays_set:
  "(decoder v = None \<and> \<not> writer_waiting (lock v) \<longrightarrow> check v = Returned (Some ''not ready''))
   \<and> (lock_free (lock v) \<longrightarrow> InjectDecoder v d = (v\<lparr>decoder := d\<rparr>, Returned None))
   \<and> (0 < readers (lock v) \<longrightarrow>
        snd (InjectDecoder v d) = Blocked \<and> decoder (fst (InjectDecoder v d)) = decoder v
        \<and> check (fst (InjectDecoder v d)) = Blocked)
   \<and> (snd (InjectDecoder v d) = Returned None \<and> d \<noteq> None \<and>
       (\<forall>op \<in> set ops. op \<noteq> OpInjectDecoder None) \<longrightarrow>
        (\<forall>n. decoder (fst (run_ops ext (fst (InjectDecoder v d), w) (take n ops))) \<noteq> None
            \<and> check (fst (run_ops ext (fst (InjectDecoder v d), w) (take n ops))) \<noteq>
                Returned (Some ''not ready'')))
   \<and> (snd (InjectDecoder v d) = Returned None \<and> d \<noteq> None \<and>
       (\<forall>op \<in> set ops. op \<noteq> OpInjectDecoder None) \<and>
       (\<forall>d' req. Decode ext (Some d') req \<noteq> DecodePanic) \<longrightarrow>
        (\<forall>n. lock_free (lock (fst (run_ops ext (fst (InjectDecoder v d), w) (take n ops))))
            \<and> check (fst (run_ops ext (fst (InjectDecoder v d), w) (take n ops))) = Returned None))"
proof -
  let ?s = "\<lambda>n. run_ops ext (fst (InjectDecoder v d), w) (take n ops)"
  have a: "decoder v = None \<and> \<not> writer_waiting (lock v) \<longrightarrow> check v = Returned (Some ''not ready'')"
    by (simp add: check_not_ready_iff)
  have b: "lock_free (lock v) \<longrightarrow> InjectDecoder v d = (v\<lparr>decoder := d\<rparr>, Returned None)"
    by (simp add: InjectDecoder_free)
  have c: "0 < readers (lock v) \<longrightarrow>
        snd (InjectDecoder v d) = Blocked \<and> decoder (fst (InjectDecoder v d)) = decoder v
        \<and> check (fst (InjectDecoder v d)) = Blocked"
    by (simp add: InjectDecoder_def Lock_def check_def RLock_def)
  have set: "decoder (fst (?s n)) \<noteq> None"
    if "snd (InjectDecoder v d) = Returned None" "d \<noteq> None"
      "\<forall>op \<in> set ops. op \<noteq> OpInjectDecoder None" for n
  proof (rule run_ops_decoder_set)
    from that(1,2) show "decoder (fst (fst (InjectDecoder v d), w)) \<noteq> None"
      by (simp add: InjectDecoder_decoder)
    from that(3) show "\<forall>op \<in> set (take n ops). op \<noteq> OpInjectDecoder None"
      by (meson in_set_takeD)
  qed
  have free: "lock_free (lock (fst (?s n)))"
    if "snd (InjectDecoder v d) = Returned None" "d \<noteq> None"
      "\<forall>op \<in> set ops. op \<noteq> OpInjectDecoder None"
      "\<forall>d' req. Decode ext (Some d') req \<noteq> DecodePanic" for n
  proof (rule run_ops_lock_free)
    from that(1) have "lock_free (lock v)" by (simp add: InjectDecoder_Returned)
    then show "lock_free (lock (fst (fst (InjectDecoder v d), w)))"
      by (simp add: InjectDecoder_free)
    from that(1,2) show "decoder (fst (fst (InjectDecoder v d), w)) \<noteq> None"
      by (simp add: InjectDecoder_decoder)
    from that(3) show "\<forall>op \<in> set (take n ops). op \<noteq> OpInjectDecoder None"
      by (meson in_set_takeD)
    from that(4) show "\<forall>d req. Decode ext (Some d) req \<noteq> DecodePanic" .
  qed
  have d: "snd (InjectDecoder v d) = Returned None \<and> d \<noteq> None \<and>
       (\<forall>op \<in> set ops. op \<noteq> OpInjectDecoder None) \<longrightarrow>
        (\<forall>n. decoder (fst (?s n)) \<noteq> None \<and> check (fst (?s n)) \<noteq> Returned (Some ''not ready''))"
    using set by (simp add: check_not_ready_iff)
  have e: "snd (InjectDecoder v d) = Returned None \<and> d \<noteq> None \<and>
       (\<forall>op \<in> set ops. op \<noteq> OpInjectDecoder None) \<and>
       (\<forall>d' req. Decode ext (Some d') req \<noteq> DecodePanic) \<longrightarrow>
        (\<forall>n. lock_free (lock (fst (?s n))) \<and> check (fst (?s n)) = Returned None)"
  proof (intro impI allI, elim conjE)
    fix n
    assume h: "snd (InjectDecoder v d) = Returned None" "d \<noteq> None"
      "\<forall>op \<in> set ops. op \<noteq> OpInjectDecoder None"
      "\<forall>d' req. Decode ext (Some d') req \<noteq> DecodePanic"
    from free [OF h] have f: "lock_free (lock (fst (?s n)))" .
    moreover from set [OF h(1,2,3)] have "decoder (fst (?s n)) \<noteq> None" .
    ultimately show "lock_free (lock (fst (?s n))) \<and> check (fst (?s n)) = Returned None"
      by (simp add: check_ready_iff lock_free_def)
  qed
  from a b c d e show ?thesis by (intro conjI)
qed

theorem C7_decoder_stays_set_witness:
  "decoder (ex_validator [''rego''] [] None) = None
   \<and> check (ex_validator [''rego''] [] None) = Returned (Some ''not ready'')
   \<and> snd (InjectDecoder (ex_validator [''rego''] [] None) (Some (ex_parse (ex_policy [] True None)))) =
       Returned None
   \<and> check (fst (run_ops ex_ext
        (fst (InjectDecoder (ex_validator [''rego''] [] None) (Some (ex_parse (ex_policy [] True None)))), [])
        [OpCheck, OpHandle () (ex_request (Some (recognised_kind ex_ext)) ''{policy}''),
         OpHandle () (ex_request (Some (recognised_kind ex_ext)) ''{''),
         OpInjectDecoder (Some (ex_parse (ex_policy [''rego''] True None))), OpCheck])) = Returned None
   \<and> snd (InjectDecoder
        ((ex_validator [''rego''] [] None)\<lparr>lock := \<lparr>readers = 1, writer_waiting = False\<rparr>\<rparr>)
        (Some (ex_parse (ex_policy [] True None)))) = Blocked"
proof -
  let ?v = "ex_validator [''rego''] [] None"
  let ?d = "Some (ex_parse (ex_policy [] True None))"
  let ?ops = "[OpCheck, OpHandle () (ex_request (Some (recognised_kind ex_ext)) ''{policy}''),
         OpHandle () (ex_request (Some (recognised_kind ex_ext)) ''{''),
         OpInjectDecoder (Some (ex_parse (ex_policy [''rego''] True None))), OpCheck]"
  have h0: "decoder ?v = None \<and> \<not> writer_waiting (lock ?v)"
    by (simp add: ex_validator_def)
  have h1: "snd (InjectDecoder ?v ?d) = Returned None"
    by (simp add: ex_validator_def InjectDecoder_def Lock_def)
  have h2: "?d \<noteq> None \<and> (\<forall>op \<in> set ?ops. op \<noteq> OpInjectDecoder None)"
    by simp
  have h3: "\<forall>d' req. Decode ex_ext (Some d') req \<noteq> DecodePanic"
    by (simp add: ex_ext_def split: option.splits)
  have h4: "0 < readers (lock (?v\<lparr>lock := \<lparr>readers = 1, writer_waiting = False\<rparr>\<rparr>))"
    by simp
  from C7_decoder_stays_set [of ?v ?d ?ops ex_ext "[]"] h0 h1 h2 h3
  have a: "check ?v = Returned (Some ''not ready'')"
    and b: "\<forall>n. check (fst (run_ops ex_ext (fst (InjectDecoder ?v ?d), []) (take n ?ops))) = Returned None"
    by blast+
  from b [rule_format, of 5]
  have c: "check (fst (run_ops ex_ext (fst (InjectDecoder ?v ?d), []) ?ops)) = Returned None"
    by simp
  from C7_decoder_stays_set [of "?v\<lparr>lock := \<lparr>readers = 1, writer_waiting = False\<rparr>\<rparr>" ?d "[]" ex_ext "[]"] h4
  have d: "snd (InjectDecoder (?v\<lparr>lock := \<lparr>readers = 1, writer_waiting = False\<rparr>\<rparr>) ?d) = Blocked"
    by blast
  from h0 h1 a c d show ?thesis by simp
qed

subsection \<open>C8: a request handled before the decoder is injected\<close>

text \<open>
  Claim C8 as stated fails on a request of the recognised kind with a non-empty object,
  handled while the handle is unset, when \<^verbatim>\<open>Decode\<close> dereferences its receiver:
  \<^const>\<open>Handle\<close> panics, it does not return status 400.
\<close>

theorem C8_counterexample:
  "RequestKind (ex_request (Some (recognised_kind ex_ext)) ''{policy}'') = Some (recognised_kind ex_ext)
   \<and> decoder (ex_validator [''rego''] [] None) = None
   \<and> Handle ex_ext (ex_validator [''rego''] [] None) ()
       (ex_request (Some (recognised_kind ex_ext)) ''{policy}'') [] = (Panics, [])"
  by (simp add: ex_validator_def ex_ext_def ex_request_def recognised_kind_def Handle_def)

text \<open>
  Claim C8, amended. \<^const>\<open>Handle\<close> has no guard of its own for a decoder handle that
  is unset: for a request of the recognised kind it calls \<^verbatim>\<open>Decode\<close> on the handle as
  it is. Whenever that call returns an error, before or after the injection,
  \<^const>\<open>Handle\<close> returns \<^verbatim>\<open>Errored\<close> with status 400 and that error, and the world
  untouched; when the call panics, as a \<^verbatim>\<open>Decode\<close> that dereferences its nil receiver
  does, \<^const>\<open>Handle\<close> panics and returns no response.
\<close>

theorem C8_decode_error_bad_request:
  assumes "RequestKind req = Some (recognised_kind ext)"
  shows "(\<forall>err. Decode ext (decoder v) req = DecodeError err \<longrightarrow>
            Handle ext v ctx req w = (Returns (admission_Errored 400 err), w))
     \<and> (Decode ext (decoder v) req = DecodePanic \<longrightarrow> Handle ext v ctx req w = (Panics, w))"
  using assms by (simp add: Handle_def recognised_kind_def StatusBadRequest_def)

theorem C8_decode_error_bad_request_witness:
  "RequestKind (ex_request (Some (recognised_kind ex_ext)) []) = Some (recognised_kind ex_ext)
   \<and> Handle ex_ext (ex_validator [''rego''] [] None) ()
       (ex_request (Some (recognised_kind ex_ext)) []) [] =
       (Returns (admission_Errored 400 ''there is no content to decode''), [])
   \<and> Handle ex_ext (ex_validator [''rego''] [] (Some (ex_parse (ex_policy [] True None)))) ()
       (ex_request (Some (recognised_kind ex_ext)) ''{'') [] =
       (Returns (admission_Errored 400 ''cannot decode the object''), [])
   \<and> Handle ex_ext (ex_validator [''rego''] [] None) ()
       (ex_request (Some (recognised_kind ex_ext)) ''{'') [] = (Panics, [])"
proof -
  have h: "RequestKind (ex_request (Some (recognised_kind ex_ext)) raw) = Some (recognised_kind ex_ext)"
    for raw
    by (simp add: ex_request_def)
  show ?thesis
    using h [of "[]"]
      C8_decode_error_bad_request [OF h, of "ex_validator [''rego''] [] None" "[]" "()" "[]"]
      C8_decode_error_bad_request [OF h,
        of "ex_validator [''rego''] [] (Some (ex_parse (ex_policy [] True None)))" "''{''" "()" "[]"]
      C8_decode_error_bad_request [OF h, of "ex_validator [''rego''] [] None" "''{''" "()" "[]"]
    by (simp add: ex_validator_def ex_ext_def ex_request_def ex_parse_def)
qed

subsection \<open>C9: no plugins registered\<close>

text \<open>
  Claim C9. With an empty list of plugins \<^const>\<open>certificateRequestPolicy\<close> returns a
  nil error, leaves the policy (and the world) as it found them, and its list is the
  errors of the unknown-plugin check, then of the selector-presence check, then of the
  matchLabels check: each check contributes what it finds in the resource, whatever the
  other two found.
\<close>

theorem C9_no_plugins:
  assumes "webhooks v = []"
  shows "certificateRequestPolicy ext v ctx policy w =
           ((unknown_plugin_errors v policy @ selector_errors policy @ match_labels_errors ext policy,
             None), policy, w)"
  using assms by (simp add: certificateRequestPolicy_def base_validations_eq)

theorem C9_no_plugins_witness:
  "webhooks (ex_validator [''rego''] [] None) = []
   \<and> certificateRequestPolicy ex_ext (ex_validator [''rego''] [] None) ()
       (ex_policy [''b'', ''rego'', ''a''] False (Some [([], ''x'')])) [] =
       (([NotSupported [''spec'', ''plugins''] (StringValue ''a'') [''rego''],
          NotSupported [''spec'', ''plugins''] (StringValue ''b'') [''rego''],
          Invalid [''spec'', ''selector'', ''namespace'', ''matchLabels'']
            (LabelsValue [([], ''x'')]) ''name part must be non-empty''], None),
        ex_policy [''b'', ''rego'', ''a''] False (Some [([], ''x'')]), [])
   \<and> certificateRequestPolicy ex_ext (ex_validator [''rego''] [] None) ()
       (ex_policy [''b''] False None) [] =
       (([NotSupported [''spec'', ''plugins''] (StringValue ''b'') [''rego''],
          Required [''spec'', ''selector'']
            ''one of issuerRef or namespace must be defined, hint: `{}` on either matches everything''],
         None),
        ex_policy [''b''] False None, [])"
proof -
  have h: "webhooks (ex_validator [''rego''] [] None) = []"
    by (simp add: ex_validator_def)
  show ?thesis
    using h C9_no_plugins [OF h, of ex_ext "()" "ex_policy [''b'', ''rego'', ''a''] False (Some [([], ''x'')])" "[]"]
      C9_no_plugins [OF h, of ex_ext "()" "ex_policy [''b''] False None" "[]"]
    by (simp add: unknown_plugin_errors_def unknown_plugin_names_def selector_errors_def
        match_labels_errors_def ex_policy_def ex_validator_def ex_ext_def)
qed

subsection \<open>C10: the allowed flag of a plugin\<close>

text \<open>
  Claim C10. When no plugin returns an execution error, the verdict of \<^const>\<open>Handle\<close> is
  decided by the aggregated list alone: the base validations followed, for each plugin
  in order, by the errors of its response when the response is not allowed and by nothing
  when it is allowed (whatever errors it carries). A response that is not allowed and
  carries no errors adds nothing, so when the base checks pass and every plugin either
  allows or denies with an empty list, the request is allowed.
\<close>

theorem C10_verdict_from_list:
  assumes "RequestKind req = Some (recognised_kind ext)"
    and "Decode ext (decoder v) req = Decoded policy"
    and "\<forall>c \<in> set (calls_made ctx (webhooks v) policy w). snd c = None"
  shows "fst (certificateRequestPolicy ext v ctx policy w) =
           (base_validations ext v policy @
            concat (map (\<lambda>c. if Allowed (fst c) then [] else Errors (fst c))
                      (calls_made ctx (webhooks v) policy w)), None)
     \<and> fst (Handle ext v ctx req w) =
           (if fst (fst (certificateRequestPolicy ext v ctx policy w)) = []
            then Returns (admission_Allowed ''CertificateRequestPolicy validated'')
            else Returns (admission_Denied
                   (ToAggregateError ext (fst (fst (certificateRequestPolicy ext v ctx policy w))))))
     \<and> (base_validations ext v policy = [] \<and>
        (\<forall>c \<in> set (calls_made ctx (webhooks v) policy w). Allowed (fst c) \<or> Errors (fst c) = []) \<longrightarrow>
          fst (Handle ext v ctx req w) =
            Returns (admission_Allowed ''CertificateRequestPolicy validated''))"
proof -
  let ?calls = "calls_made ctx (webhooks v) policy w"
  have pe: "plugin_errors ?calls = concat (map (\<lambda>c. if Allowed (fst c) then [] else Errors (fst c)) ?calls)"
    by (simp add: plugin_errors_def case_prod_unfold)
  have a: "fst (certificateRequestPolicy ext v ctx policy w) =
      (base_validations ext v policy @ plugin_errors ?calls, None)"
    using webhooks_loop_ok [OF assms(3)] by (simp add: certificateRequestPolicy_def)
  obtain el err policy' w' where r: "certificateRequestPolicy ext v ctx policy w = ((el, err), policy', w')"
    by (cases "certificateRequestPolicy ext v ctx policy w") auto
  with a have e: "err = None" and el: "el = base_validations ext v policy @ plugin_errors ?calls"
    by simp_all
  have H: "fst (Handle ext v ctx req w) =
      (if el = [] then Returns (admission_Allowed ''CertificateRequestPolicy validated'')
       else Returns (admission_Denied (ToAggregateError ext el)))"
    using Handle_recognised [OF assms(1,2), of ctx w] r e by simp
  have c1: "fst (certificateRequestPolicy ext v ctx policy w) =
           (base_validations ext v policy @
            concat (map (\<lambda>c. if Allowed (fst c) then [] else Errors (fst c)) ?calls), None)"
    using a by (simp only: pe)
  have c2: "fst (Handle ext v ctx req w) =
           (if fst (fst (certificateRequestPolicy ext v ctx policy w)) = []
            then Returns (admission_Allowed ''CertificateRequestPolicy validated'')
            else Returns (admission_Denied
                   (ToAggregateError ext (fst (fst (certificateRequestPolicy ext v ctx policy w))))))"
    using H by (simp only: r fst_conv)
  have c3: "fst (Handle ext v ctx req w) =
            Returns (admission_Allowed ''CertificateRequestPolicy validated'')"
    if b: "base_validations ext v policy = []"
      and p: "\<forall>c \<in> set ?calls. Allowed (fst c) \<or> Errors (fst c) = []"
  proof -
    from p have "plugin_errors ?calls = []"
      unfolding pe by (induction ?calls) auto
    with b el have "el = []" by simp
    with H show ?thesis by simp
  qed
  from c1 c2 c3 show ?thesis by blast
qed

theorem C10_verdict_from_list_witness:
  "RequestKind (ex_request (Some (recognised_kind ex_ext)) ''{policy}'') = Some (recognised_kind ex_ext)
   \<and> calls_made ()
       (webhooks (ex_validator [''rego'']
          [ex_plugin ''p1'' True [OtherError ''Forbidden'' [''spec''] ''no''] None,
           ex_plugin ''p2'' False [] None]
          (Some (ex_parse (ex_policy [''rego''] True None)))))
       (ex_policy [''rego''] True None) [] =
       [(\<lparr>Allowed = True, Errors = [OtherError ''Forbidden'' [''spec''] ''no'']\<rparr>, None),
        (\<lparr>Allowed = False, Errors = []\<rparr>, None)]
   \<and> Handle ex_ext
       (ex_validator [''rego'']
          [ex_plugin ''p1'' True [OtherError ''Forbidden'' [''spec''] ''no''] None,
           ex_plugin ''p2'' False [] None]
          (Some (ex_parse (ex_policy [''rego''] True None))))
       () (ex_request (Some (recognised_kind ex_ext)) ''{policy}'') [] =
       (Returns (admission_Allowed ''CertificateRequestPolicy validated''), [''p1'', ''p2''])"
proof -
  let ?req = "ex_request (Some (recognised_kind ex_ext)) ''{policy}''"
  let ?policy = "ex_policy [''rego''] True None"
  let ?v = "ex_validator [''rego'']
          [ex_plugin ''p1'' True [OtherError ''Forbidden'' [''spec''] ''no''] None,
           ex_plugin ''p2'' False [] None]
          (Some (ex_parse ?policy))"
  have h1: "RequestKind ?req = Some (recognised_kind ex_ext)"
    by (simp add: ex_request_def)
  have h2: "Decode ex_ext (decoder ?v) ?req = Decoded ?policy"
    by (simp add: ex_ext_def ex_validator_def ex_request_def ex_parse_def)
  have calls: "calls_made () (webhooks ?v) ?policy [] =
       [(\<lparr>Allowed = True, Errors = [OtherError ''Forbidden'' [''spec''] ''no'']\<rparr>, None),
        (\<lparr>Allowed = False, Errors = []\<rparr>, None)]"
    by (simp add: ex_validator_def ex_plugin_def)
  then have h3: "\<forall>c \<in> set (calls_made () (webhooks ?v) ?policy []). snd c = None"
    by simp
  have base: "base_validations ex_ext ?v ?policy = []"
    by (simp add: base_validations_def ex_policy_def ex_validator_def)
  have w: "snd (Handle ex_ext ?v () ?req []) = [''p1'', ''p2'']"
    by (simp add: ex_validator_def ex_plugin_def ex_ext_def ex_request_def ex_parse_def
        recognised_kind_def certificateRequestPolicy_def Handle_def split: option.splits)
  have "fst (Handle ex_ext ?v () ?req []) =
      Returns (admission_Allowed ''CertificateRequestPolicy validated'')"
    using C10_verdict_from_list [OF h1 h2 h3] base calls by simp
  with h1 calls w show ?thesis
    by (simp add: prod_eq_iff)
qed

end
